theory Spec2Isabelle
  imports Complex_Main
begin

section \<open>Scalars\<close>

text \<open>
  The template parameter \<open>Scalar\<close> is instantiated with \<open>double\<close>, modelled by \<^typ>\<open>real\<close>.
  The template parameter \<open>AutoDiffType\<close> is instantiated with \<open>autodiff::dual\<close>, a
  first-order forward-mode dual number: a value and a derivative, with the usual
  arithmetic. Code that is generic in the scalar type is modelled over a commutative ring
  with an embedding of the reals (\<open>of_real\<close>), which stands for the implicit conversion of a
  \<open>double\<close> into the scalar type.
\<close>

datatype dual = Dual (val: real) (grad: real)

instantiation dual :: comm_ring_1
begin

definition zero_dual :: dual where
  "zero_dual = Dual 0 0"

definition one_dual :: dual where
  "one_dual = Dual 1 0"

definition plus_dual :: "dual \<Rightarrow> dual \<Rightarrow> dual" where
  "plus_dual a b = Dual (val a + val b) (grad a + grad b)"

definition minus_dual :: "dual \<Rightarrow> dual \<Rightarrow> dual" where
  "minus_dual a b = Dual (val a - val b) (grad a - grad b)"

definition uminus_dual :: "dual \<Rightarrow> dual" where
  "uminus_dual a = Dual (- val a) (- grad a)"

definition times_dual :: "dual \<Rightarrow> dual \<Rightarrow> dual" where
  "times_dual a b = Dual (val a * val b) (grad a * val b + val a * grad b)"

instance
  by standard
    (simp_all add: zero_dual_def one_dual_def plus_dual_def minus_dual_def uminus_dual_def
      times_dual_def dual.expand algebra_simps)

end

instantiation dual :: real_algebra_1
begin

definition scaleR_dual :: "real \<Rightarrow> dual \<Rightarrow> dual" where
  "scaleR_dual r a = Dual (r * val a) (r * grad a)"

instance
  by standard
    (simp_all add: scaleR_dual_def plus_dual_def times_dual_def one_dual_def dual.expand
      algebra_simps)

end

section \<open>Errors\<close>

text \<open>
  The source has no error values of its own: what can go wrong is an assertion or an
  exception of a library it calls. Each is a value here.
  \<^item> \<open>DimensionMismatch\<close>: Eigen's size assertion in a product, a sum or an assignment to a
    fixed-size matrix;
  \<^item> \<open>IndexOutOfRange\<close>: Eigen's index assertion in \<open>operator()\<close> and \<open>coeffRef\<close>, and
    \<open>std::out_of_range\<close> of \<open>std::vector::at\<close>;
  \<^item> \<open>ComponentNotFound\<close>: ifopt's \<open>Composite::GetComponent\<close> on a name no component has;
  \<^item> \<open>KinematicsFailure\<close>: a failure of \<open>forward_kinematics\<close>;
  \<^item> \<open>SolverFailure\<close>: a failure of the solver's \<open>Solve\<close>.
\<close>

datatype error =
    DimensionMismatch
  | IndexOutOfRange
  | ComponentNotFound string
  | KinematicsFailure string
  | SolverFailure string

definition bind :: "error + 'a \<Rightarrow> ('a \<Rightarrow> error + 'b) \<Rightarrow> error + 'b" where
  "bind m f = (case m of Inl e \<Rightarrow> Inl e | Inr x \<Rightarrow> f x)"

section \<open>Eigen matrices\<close>

text \<open>
  A matrix is its number of rows, its number of columns and its coefficients. Only the
  coefficients inside the dimensions mean anything; \<open>at_m\<close> is the checked access
  \<open>M(i, j)\<close>.
\<close>

record 'a matrix =
  rows :: nat
  cols :: nat
  coeff :: "nat \<Rightarrow> nat \<Rightarrow> 'a"

definition at_m :: "'a matrix \<Rightarrow> nat \<Rightarrow> nat \<Rightarrow> error + 'a" where
  "at_m M i j = (if i < rows M \<and> j < cols M then Inr (coeff M i j) else Inl IndexOutOfRange)"

definition coeffRef :: "'a matrix \<Rightarrow> nat \<Rightarrow> nat \<Rightarrow> 'a \<Rightarrow> error + 'a matrix" where
  "coeffRef M i j v =
     (if i < rows M \<and> j < cols M
      then Inr (M\<lparr>coeff := (coeff M)(i := (coeff M i)(j := v))\<rparr>)
      else Inl IndexOutOfRange)"

definition Zero :: "nat \<Rightarrow> nat \<Rightarrow> ('a::zero) matrix" where
  "Zero n m = \<lparr>rows = n, cols = m, coeff = (\<lambda>i j. 0)\<rparr>"

definition Identity :: "nat \<Rightarrow> nat \<Rightarrow> ('a::zero_neq_one) matrix" where
  "Identity n m = \<lparr>rows = n, cols = m, coeff = (\<lambda>i j. if i = j then 1 else 0)\<rparr>"

definition transpose_m :: "'a matrix \<Rightarrow> 'a matrix" where
  "transpose_m M = \<lparr>rows = cols M, cols = rows M, coeff = (\<lambda>i j. coeff M j i)\<rparr>"

definition scale :: "('a::times) matrix \<Rightarrow> 'a \<Rightarrow> 'a matrix" where
  "scale M c = \<lparr>rows = rows M, cols = cols M, coeff = (\<lambda>i j. coeff M i j * c)\<rparr>"

definition mat_mult :: "('a::semiring_0) matrix \<Rightarrow> 'a matrix \<Rightarrow> error + 'a matrix" where
  "mat_mult A B =
     (if cols A = rows B
      then Inr \<lparr>rows = rows A, cols = cols B,
                coeff = (\<lambda>i j. \<Sum>k<cols A. coeff A i k * coeff B k j)\<rparr>
      else Inl DimensionMismatch)"

definition mat_add :: "('a::plus) matrix \<Rightarrow> 'a matrix \<Rightarrow> error + 'a matrix" where
  "mat_add A B =
     (if rows A = rows B \<and> cols A = cols B
      then Inr \<lparr>rows = rows A, cols = cols A, coeff = (\<lambda>i j. coeff A i j + coeff B i j)\<rparr>
      else Inl DimensionMismatch)"

definition mat_sub :: "('a::minus) matrix \<Rightarrow> 'a matrix \<Rightarrow> error + 'a matrix" where
  "mat_sub A B =
     (if rows A = rows B \<and> cols A = cols B
      then Inr \<lparr>rows = rows A, cols = cols A, coeff = (\<lambda>i j. coeff A i j - coeff B i j)\<rparr>
      else Inl DimensionMismatch)"

definition diagonal_sum :: "('a::comm_monoid_add) matrix \<Rightarrow> 'a" where
  "diagonal_sum M = (\<Sum>i<min (rows M) (cols M). coeff M i i)"

definition col_vector :: "'a list \<Rightarrow> 'a matrix" where
  "col_vector v = \<lparr>rows = length v, cols = 1, coeff = (\<lambda>i j. v ! i)\<rparr>"

definition scalar_matrix :: "'a \<Rightarrow> 'a matrix" where
  "scalar_matrix x = \<lparr>rows = 1, cols = 1, coeff = (\<lambda>i j. x)\<rparr>"

text \<open>The fixed-size types of a rigid transform: a 3-vector and a 3x3 matrix (row by row).\<close>

datatype 'a Vector3 = Vector3 'a 'a 'a

datatype 'a Matrix3 = Matrix3 "'a Vector3" "'a Vector3" "'a Vector3"

fun component :: "'a Vector3 \<Rightarrow> nat \<Rightarrow> 'a" where
  "component (Vector3 x y z) i = (if i = 0 then x else if i = 1 then y else z)"

fun row :: "'a Matrix3 \<Rightarrow> nat \<Rightarrow> 'a Vector3" where
  "row (Matrix3 r0 r1 r2) i = (if i = 0 then r0 else if i = 1 then r1 else r2)"

definition vector3 :: "'a Vector3 \<Rightarrow> 'a matrix" where
  "vector3 v = \<lparr>rows = 3, cols = 1, coeff = (\<lambda>i j. component v i)\<rparr>"

definition matrix3 :: "'a Matrix3 \<Rightarrow> 'a matrix" where
  "matrix3 R = \<lparr>rows = 3, cols = 3, coeff = (\<lambda>i j. component (row R i) j)\<rparr>"

record 'a Transform =
  linear :: "'a Matrix3"
  translation :: "'a Vector3"


section \<open>Collaborators outside the translated file\<close>

text \<open>
  Modelled from the spec: \<open>RobotModel\<close> (RobotModel.hpp) is not among the sources. The spec
  says that it "owns link/joint topology and \<open>n_q\<close>" and supports a "cast to scalar type S"
  producing "a structurally identical model whose internal quantities are instantiated
  over S". The translated file reads \<open>n_q\<close> and calls \<open>cast\<close>; the link names and the scalar
  parameters stand for the topology and the internal quantities.
\<close>

record 'a RobotModel =
  n_q :: nat
  link_names :: "string list"
  parameters :: "'a list"

definition cast_model :: "('a \<Rightarrow> 'b) \<Rightarrow> 'a RobotModel \<Rightarrow> 'b RobotModel" where
  "cast_model f mdl =
     \<lparr>n_q = n_q mdl, link_names = link_names mdl, parameters = map f (parameters mdl)\<rparr>"

text \<open>
  \<open>forward_kinematics\<close> (ForwardKinematics.hpp) and \<open>rot2rpy\<close> (Common.hpp) are not among
  the sources either: every function that calls them takes them as its first parameters.
  \<open>forward_kinematics\<close> may fail (a C++ exception), hence its result type.
\<close>

type_synonym 'a kinematics =
  "'a RobotModel \<Rightarrow> 'a list \<Rightarrow> string \<Rightarrow> string \<Rightarrow> error + 'a Transform"

type_synonym 'a rpy = "'a matrix \<Rightarrow> 'a list"

section \<open>IKVariables\<close>

text \<open>
  ifopt's \<open>VariableSet(n, name)\<close> stores the number of rows and the name, read back by
  \<open>GetRows()\<close> and \<open>GetName()\<close>. The class adds the configuration vector \<open>q\<close>.
  Vectors that are only stored and read by index are lists; \<open>vec_at\<close> and \<open>vec_set\<close> are
  the checked accesses (\<open>x(i)\<close> of Eigen, \<open>v.at(i)\<close> of \<open>std::vector\<close>).
\<close>

record IKVariables =
  var_name :: string
  var_rows :: nat
  var_q :: "real list"

datatype Bounds = NoBound | Bounds real real

definition M_PI :: real where
  "M_PI = pi"

definition vec_at :: "'a list \<Rightarrow> nat \<Rightarrow> error + 'a" where
  "vec_at v i = (if i < length v then Inr (v ! i) else Inl IndexOutOfRange)"

definition vec_set :: "'a list \<Rightarrow> nat \<Rightarrow> 'a \<Rightarrow> error + 'a list" where
  "vec_set v i x = (if i < length v then Inr (v[i := x]) else Inl IndexOutOfRange)"

text \<open>
  \<open>resize(n)\<close> of a dynamic Eigen vector leaves \<open>n\<close> coefficients of no specified value;
  zeros stand for them.
\<close>

definition resize :: "real list \<Rightarrow> nat \<Rightarrow> real list" where
  "resize v n = replicate n 0"

text \<open>
  The constructor: \<open>q.resize(_model->n_q); q = q0;\<close>. Assigning to a dynamic Eigen vector
  gives it the size of the right-hand side.
\<close>

definition IKVariables_new :: "string \<Rightarrow> real RobotModel \<Rightarrow> real list \<Rightarrow> IKVariables" where
  "IKVariables_new nm mdl q0 =
     (let v = \<lparr>var_name = nm, var_rows = n_q mdl, var_q = []\<rparr>;
          v = v\<lparr>var_q := resize (var_q v) (n_q mdl)\<rparr>
      in v\<lparr>var_q := q0\<rparr>)"

definition GetRows :: "IKVariables \<Rightarrow> nat" where
  "GetRows v = var_rows v"

definition GetName :: "IKVariables \<Rightarrow> string" where
  "GetName v = var_name v"

definition SetVariables :: "IKVariables \<Rightarrow> real list \<Rightarrow> IKVariables" where
  "SetVariables v qin = v\<lparr>var_q := qin\<rparr>"

definition GetValues :: "IKVariables \<Rightarrow> real list" where
  "GetValues v = var_q v"

text \<open>
  \<open>VecBound bounds(GetRows())\<close> holds default-constructed bounds (ifopt's \<open>NoBound\<close>, from
  minus to plus infinity); the loop \<open>for (int i = 0; i < GetRows(); i++)\<close> runs over the
  indices \<open>[0..<GetRows()]\<close>.
\<close>

fun GetBounds_loop :: "nat list \<Rightarrow> Bounds list \<Rightarrow> error + Bounds list" where
  "GetBounds_loop [] bounds = Inr bounds"
| "GetBounds_loop (i # is) bounds =
     bind (vec_set bounds i (Bounds (- M_PI) M_PI)) (GetBounds_loop is)"

definition GetBounds :: "IKVariables \<Rightarrow> error + Bounds list" where
  "GetBounds v = GetBounds_loop [0..<GetRows v] (replicate (GetRows v) NoBound)"

text \<open>
  ifopt's \<open>Composite\<close> of variable sets: \<open>GetVariables()->GetComponent(name)\<close> is the first
  component of that name, and an assertion failure when there is none.
\<close>

type_synonym Composite = "IKVariables list"

definition GetComponent :: "Composite \<Rightarrow> string \<Rightarrow> error + IKVariables" where
  "GetComponent vars nm =
     (case find (\<lambda>c. GetName c = nm) vars of
        None \<Rightarrow> Inl (ComponentNotFound nm)
      | Some c \<Rightarrow> Inr c)"

section \<open>IKConstraint\<close>

text \<open>
  \<open>ConstraintSet(1, name)\<close>: one row. A Jacobian block (\<open>Eigen::SparseMatrix\<close>) is modelled
  by its dimensions and coefficients, a coefficient never written being zero;
  \<open>coeffRef(i, j) = v\<close> is \<^const>\<open>coeffRef\<close>.
\<close>

record IKConstraint =
  con_name :: string
  con_rows :: nat

definition IKConstraint_new :: "string \<Rightarrow> IKConstraint" where
  "IKConstraint_new nm = \<lparr>con_name = nm, con_rows = 1\<rparr>"

definition IKConstraint_GetValues :: "IKConstraint \<Rightarrow> Composite \<Rightarrow> error + real list" where
  "IKConstraint_GetValues c vars =
     (let g = resize [] (con_rows c) in
      bind (GetComponent vars ''var_set1'') (\<lambda>variable_set.
        let x = GetValues variable_set in
        bind (vec_at x 0) (\<lambda>x0.
        bind (vec_at x 1) (\<lambda>x1.
        vec_set g 0 (x0 ^ 2 + x1)))))"

definition IKConstraint_GetBounds :: "IKConstraint \<Rightarrow> error + Bounds list" where
  "IKConstraint_GetBounds c = vec_set (replicate (con_rows c) NoBound) 0 (Bounds 1 1)"

definition IKConstraint_FillJacobianBlock ::
  "IKConstraint \<Rightarrow> string \<Rightarrow> real matrix \<Rightarrow> Composite \<Rightarrow> error + real matrix" where
  "IKConstraint_FillJacobianBlock c var_set jac_block vars =
     (if var_set = ''var_set1''
      then bind (GetComponent vars ''var_set1'') (\<lambda>variable_set.
             let x = GetValues variable_set in
             bind (vec_at x 0) (\<lambda>x0.
             bind (coeffRef jac_block 0 0 (2 * x0)) (\<lambda>jac_block.
             coeffRef jac_block 0 1 1)))
      else Inr jac_block)"

section \<open>IKCost\<close>

record IKCost =
  cost_name :: string
  model :: "dual RobotModel"
  source_link_name :: string
  target_link_name :: string
  desired_pose :: "real Transform"

definition IKCost_new ::
  "string \<Rightarrow> dual RobotModel \<Rightarrow> string \<Rightarrow> string \<Rightarrow> real Transform \<Rightarrow> IKCost" where
  "IKCost_new nm mdl source target desired =
     \<lparr>cost_name = nm, model = mdl, source_link_name = source, target_link_name = target,
      desired_pose = desired\<rparr>"

text \<open>
  The orientation error of \<open>cost\<close>: \<open>R_v_r = Rst_desired * Rst_current.transpose()\<close>, then
  \<open>(Identity() - R_v_r).diagonal().sum()\<close>, with \<open>R_v_r\<close> and the identity of size 3x3.
\<close>

definition orientation_error ::
  "('a::comm_ring_1) matrix \<Rightarrow> 'a matrix \<Rightarrow> error + 'a" where
  "orientation_error Rst_desired Rst_current =
     bind (mat_mult Rst_desired (transpose_m Rst_current)) (\<lambda>R_v_r.
     bind (mat_sub (Identity 3 3) R_v_r) (\<lambda>D.
     Inr (diagonal_sum D)))"

text \<open>
  The static function \<open>cost\<close>, generic in \<open>AutoDiffType\<close>. The desired pose is of type
  \<open>Scalar\<close> and is converted where it meets the other scalar type, as are the literals
  \<open>1e-6\<close>, \<open>1\<close> and \<open>50\<close>. The results of \<open>rot2rpy\<close> are computed and not used, as in the
  source.
\<close>

definition cost ::
  "('a::{comm_ring_1,real_algebra_1}) kinematics \<Rightarrow> 'a rpy \<Rightarrow> 'a list \<Rightarrow> 'a RobotModel \<Rightarrow>
     string \<Rightarrow> string \<Rightarrow> real Transform \<Rightarrow> error + 'a matrix" where
  "cost forward_kinematics rot2rpy q mdl source target desired =
     bind (forward_kinematics mdl q source target) (\<lambda>Hst_current.
     let Rst_current = matrix3 (linear Hst_current);
         Theta_st_current = rot2rpy Rst_current;
         Rst_desired = matrix3 (map_Matrix3 of_real (linear desired));
         Theta_st_desired = rot2rpy Rst_desired
     in
     bind (orientation_error Rst_desired Rst_current) (\<lambda>orientation_error_value.
     let o_error = scalar_matrix orientation_error_value;
         W = Identity (n_q mdl) (n_q mdl);
         K = Identity 3 3
     in
     bind (mat_sub (vector3 (translation Hst_current))
                   (vector3 (map_Vector3 of_real (translation desired)))) (\<lambda>err.
     bind (mat_mult (scale (transpose_m err) 1) K) (\<lambda>errK.
     bind (mat_mult errK err) (\<lambda>translation_term.
     bind (mat_mult (scale (transpose_m (col_vector q)) (of_real (1 / 1000000))) W) (\<lambda>qW.
     bind (mat_mult qW (col_vector q)) (\<lambda>regularization_term.
     bind (mat_mult (scale o_error 50) o_error) (\<lambda>orientation_term.
     bind (mat_add translation_term regularization_term) (\<lambda>partial_sum.
     mat_add partial_sum orientation_term)))))))))"


text \<open>
  autodiff's \<open>jacobian(f, wrt(x), at(x, ...), F)\<close>, a library function: for every index
  \<open>i\<close> of \<open>x\<close> in turn it sets the derivative part of \<open>x(i)\<close> to 1 (the seed), evaluates \<open>f\<close>
  into \<open>F\<close>, sets the derivative part back to 0 and stores the derivative part of \<open>F\<close> in
  column \<open>i\<close>. With no variable it returns an empty matrix and never calls \<open>f\<close>. \<open>F\<close> is
  declared of fixed size 1x1 here, so a result of another size fails the assignment.
\<close>

definition seed :: "dual list \<Rightarrow> nat \<Rightarrow> real \<Rightarrow> dual list" where
  "seed x i g = x[i := Dual (val (x ! i)) g]"

fun jacobian_loop ::
  "(dual list \<Rightarrow> error + dual matrix) \<Rightarrow> nat list \<Rightarrow> dual list \<Rightarrow> real matrix \<Rightarrow>
     error + real matrix" where
  "jacobian_loop f [] x J = Inr J"
| "jacobian_loop f (i # is) x J =
     bind (f (seed x i 1)) (\<lambda>F.
       if rows F = 1 \<and> cols F = 1
       then bind (coeffRef J 0 i (grad (coeff F 0 0))) (jacobian_loop f is (seed (seed x i 1) i 0))
       else Inl DimensionMismatch)"

definition jacobian :: "(dual list \<Rightarrow> error + dual matrix) \<Rightarrow> dual list \<Rightarrow> error + real matrix" where
  "jacobian f x =
     (if length x = 0 then Inr (Zero 0 0)
      else jacobian_loop f [0..<length x] x (Zero 1 (length x)))"

text \<open>
  \<open>FillJacobianBlock\<close>: \<open>jac.resize(J.rows(), J.cols())\<close> empties the block, and the loop
  \<open>for (int i = 0; i < model->n_q; i++) jac.coeffRef(0, i) = J(0, i)\<close> copies row 0.
\<close>

fun FillJacobianBlock_loop :: "nat list \<Rightarrow> real matrix \<Rightarrow> real matrix \<Rightarrow> error + real matrix" where
  "FillJacobianBlock_loop [] J jac = Inr jac"
| "FillJacobianBlock_loop (i # is) J jac =
     bind (at_m J 0 i) (\<lambda>v.
     bind (coeffRef jac 0 i v) (FillJacobianBlock_loop is J))"

definition FillJacobianBlock ::
  "dual kinematics \<Rightarrow> dual rpy \<Rightarrow> IKCost \<Rightarrow> string \<Rightarrow> real matrix \<Rightarrow> Composite \<Rightarrow>
     error + real matrix" where
  "FillJacobianBlock forward_kinematics rot2rpy c var_set jac vars =
     (if var_set = ''configuration_vector''
      then bind (GetComponent vars ''configuration_vector'') (\<lambda>variable_set.
           let q_auto = map of_real (GetValues variable_set) in
           bind (jacobian (\<lambda>x. cost forward_kinematics rot2rpy x (model c) (source_link_name c)
                                  (target_link_name c) (desired_pose c)) q_auto) (\<lambda>J.
           let jac = Zero (rows J) (cols J) in
           FillJacobianBlock_loop [0..<n_q (model c)] J jac))
      else Inr jac)"

section \<open>The solve driver\<close>

text \<open>
  ifopt's \<open>Problem\<close> holds the variable sets and the cost terms that were added to it (the
  call adding a constraint set is commented out in the source). \<open>IpoptSolver\<close> holds the
  option list: \<open>SetOption(name, value)\<close> stores a string, an integer or a number under the
  name, replacing what was there.
\<close>

record Problem =
  variables :: Composite
  costs :: "IKCost list"

definition Problem_new :: Problem where
  "Problem_new = \<lparr>variables = [], costs = []\<rparr>"

definition AddVariableSet :: "Problem \<Rightarrow> IKVariables \<Rightarrow> Problem" where
  "AddVariableSet nlp v = nlp\<lparr>variables := variables nlp @ [v]\<rparr>"

definition AddCostSet :: "Problem \<Rightarrow> IKCost \<Rightarrow> Problem" where
  "AddCostSet nlp c = nlp\<lparr>costs := costs nlp @ [c]\<rparr>"

definition GetOptVariables_GetValues :: "Problem \<Rightarrow> real list" where
  "GetOptVariables_GetValues nlp = concat (map GetValues (variables nlp))"

datatype option_value = StringValue string | IntegerValue int | NumericValue real

record IpoptSolver =
  options :: "string \<rightharpoonup> option_value"

definition SetOption :: "IpoptSolver \<Rightarrow> string \<Rightarrow> option_value \<Rightarrow> IpoptSolver" where
  "SetOption ipopt nm v = ipopt\<lparr>options := (options ipopt)(nm \<mapsto> v)\<rparr>"

text \<open>
  The solver is a black box: \<open>ipopt.Solve(nlp)\<close> is a parameter \<open>Solve\<close> that takes the
  configured solver and the problem and returns the problem as the solver leaves it, or
  fails. \<open>ipopt\<close> is the solver object as \<open>IpoptSolver\<close>'s constructor builds it.

  \<open>inverse_kinematics_setup\<close> is steps 1 and 2 of the function ("Define the problem",
  "Choose solver and options"); \<open>inverse_kinematics\<close> adds step 3 ("Solve").
\<close>

type_synonym solver = "IpoptSolver \<Rightarrow> Problem \<Rightarrow> error + Problem"

definition inverse_kinematics_setup ::
  "IpoptSolver \<Rightarrow> real RobotModel \<Rightarrow> string \<Rightarrow> string \<Rightarrow> real Transform \<Rightarrow> real list \<Rightarrow>
     IpoptSolver \<times> Problem" where
  "inverse_kinematics_setup ipopt mdl source target desired q0 =
     (let autodiff_model = cast_model of_real mdl;
          nlp = Problem_new;
          nlp = AddVariableSet nlp (IKVariables_new ''configuration_vector'' mdl q0);
          nlp = AddCostSet nlp (IKCost_new ''IK_cost'' autodiff_model source target desired);
          ipopt = SetOption ipopt ''linear_solver'' (StringValue ''mumps'');
          ipopt = SetOption ipopt ''jacobian_approximation'' (StringValue ''exact'');
          ipopt = SetOption ipopt ''max_iter'' (IntegerValue 250);
          ipopt = SetOption ipopt ''acceptable_tol'' (NumericValue (1 / 1000000000))
      in (ipopt, nlp))"

definition inverse_kinematics ::
  "solver \<Rightarrow> IpoptSolver \<Rightarrow> real RobotModel \<Rightarrow> string \<Rightarrow> string \<Rightarrow> real Transform \<Rightarrow>
     real list \<Rightarrow> error + real list" where
  "inverse_kinematics Solve ipopt mdl source target desired q0 =
     (case inverse_kinematics_setup ipopt mdl source target desired q0 of
        (ipopt, nlp) \<Rightarrow>
          bind (Solve ipopt nlp) (\<lambda>nlp. Inr (GetOptVariables_GetValues nlp)))"

section \<open>The cost as the specification writes it\<close>

text \<open>
  The specification's formula for the Pose-Error Cost, to compare the code with: the
  quadratic form \<open>v\<^sup>T A v\<close> of a vector of \<open>n\<close> components, the trace of
  \<open>I - R_desired R_current\<^sup>T\<close>, and the sum of the translation term (weight: the 3x3
  identity), the regularization term (weight: 1e-6 times the identity) and the
  orientation term (the orientation error times 50 times itself).
\<close>

definition quadratic_form ::
  "nat \<Rightarrow> (nat \<Rightarrow> 'a::semiring_0) \<Rightarrow> (nat \<Rightarrow> nat \<Rightarrow> 'a) \<Rightarrow> 'a" where
  "quadratic_form n v A = (\<Sum>j<n. (\<Sum>i<n. v i * A i j) * v j)"

definition trace_error :: "('a::comm_ring_1) Matrix3 \<Rightarrow> 'a Matrix3 \<Rightarrow> 'a" where
  "trace_error Rd Rc =
     (\<Sum>i<3. 1 - (\<Sum>k<3. component (row Rd i) k * component (row Rc i) k))"

definition pose_error_cost ::
  "('a::{comm_ring_1,real_algebra_1}) Transform \<Rightarrow> 'a list \<Rightarrow> real Transform \<Rightarrow> 'a" where
  "pose_error_cost Hst_current q desired =
     quadratic_form 3
       (\<lambda>i. component (translation Hst_current) i - of_real (component (translation desired) i))
       (\<lambda>i j. if i = j then 1 else 0)
     + quadratic_form (length q) (\<lambda>i. q ! i)
         (\<lambda>i j. of_real (1 / 1000000) * (if i = j then 1 else 0))
     + trace_error (map_Matrix3 of_real (linear desired)) (linear Hst_current) * 50 *
       trace_error (map_Matrix3 of_real (linear desired)) (linear Hst_current)"

text \<open>
  A 3D rotation matrix, as the specification means it: the rows are orthonormal and the
  determinant is 1.
\<close>

fun is_rotation :: "real Matrix3 \<Rightarrow> bool" where
  "is_rotation (Matrix3 (Vector3 a b c) (Vector3 d e f) (Vector3 g h i)) =
     (a * a + b * b + c * c = 1 \<and> d * d + e * e + f * f = 1 \<and> g * g + h * h + i * i = 1
      \<and> a * d + b * e + c * f = 0 \<and> a * g + b * h + c * i = 0 \<and> d * g + e * h + f * i = 0
      \<and> a * (e * i - f * h) - b * (d * i - f * g) + c * (d * h - e * g) = 1)"

section \<open>An example robot\<close>

text \<open>
  A concrete instance of the collaborators, on which the theorems below are put to work:
  two sliding joints along the x axis (joint \<open>i\<close> moves the tool by \<open>parameters ! i\<close> times
  \<open>q ! i\<close>), the tool turned a quarter turn about z. The kinematics is written once for
  every scalar type, and fails on a link name the model does not have. The roll-pitch-yaw
  angles are not used by any caller, so a constant stands for \<open>rot2rpy\<close>.
\<close>

definition slider_kinematics :: "('a::comm_ring_1) kinematics" where
  "slider_kinematics mdl q source target =
     (if source \<in> set (link_names mdl) \<and> target \<in> set (link_names mdl)
      then Inr \<lparr>linear = Matrix3 (Vector3 0 (- 1) 0) (Vector3 1 0 0) (Vector3 0 0 1),
                translation = Vector3 (sum_list (map2 (*) (parameters mdl) q)) 0 0\<rparr>
      else Inl (KinematicsFailure ''link not found''))"

definition no_rpy :: "('a::zero) rpy" where
  "no_rpy R = [0, 0, 0]"

definition slider_model :: "real RobotModel" where
  "slider_model = \<lparr>n_q = 2, link_names = [''base'', ''tool''], parameters = [1, 2]\<rparr>"

definition slider_pose :: "real Transform" where
  "slider_pose = \<lparr>linear = Matrix3 (Vector3 1 0 0) (Vector3 0 1 0) (Vector3 0 0 1),
                   translation = Vector3 1 1 0\<rparr>"

definition slider_variables :: Composite where
  "slider_variables = [IKVariables_new ''configuration_vector'' slider_model [1, 2]]"

definition slider_cost :: IKCost where
  "slider_cost = IKCost_new ''IK_cost'' (cast_model of_real slider_model) ''base'' ''tool'' slider_pose"


section \<open>Properties of the variable set\<close>

lemma bind_Inr: "bind (Inr x) f = f x"
  by (simp add: bind_def)

lemma bind_Inl: "bind (Inl e) f = Inl e"
  by (simp add: bind_def)

text \<open>
  The loop of \<open>GetBounds\<close>: when every index it visits is inside the vector, it succeeds,
  keeps the length, and has overwritten exactly the visited places.
\<close>

lemma GetBounds_loop_update:
  "\<forall>i\<in>set idxs. i < length bounds \<Longrightarrow>
   \<exists>bs. GetBounds_loop idxs bounds = Inr bs \<and> length bs = length bounds \<and>
        (\<forall>j<length bounds.
           bs ! j = (if j \<in> set idxs then Bounds (- M_PI) M_PI else bounds ! j))"
proof (induction idxs arbitrary: bounds)
  case Nil
  then show ?case by simp
next
  case (Cons i idxs)
  let ?b = "bounds[i := Bounds (- M_PI) M_PI]"
  have "\<forall>k\<in>set idxs. k < length ?b"
    using Cons.prems by simp
  from Cons.IH[OF this] obtain bs where bs:
    "GetBounds_loop idxs ?b = Inr bs"
    "length bs = length ?b"
    "\<forall>j<length ?b. bs ! j = (if j \<in> set idxs then Bounds (- M_PI) M_PI else ?b ! j)"
    by blast
  have "GetBounds_loop (i # idxs) bounds = Inr bs"
    using Cons.prems bs(1) by (simp add: vec_set_def bind_Inr)
  moreover have "length bs = length bounds"
    using bs(2) by simp
  moreover have "\<forall>j<length bounds.
      bs ! j = (if j \<in> set (i # idxs) then Bounds (- M_PI) M_PI else bounds ! j)"
    using bs(3) Cons.prems by (auto simp: nth_list_update)
  ultimately show ?case by blast
qed

lemma GetBounds_replicate:
  "GetBounds v = Inr (replicate (GetRows v) (Bounds (- M_PI) M_PI))"
proof -
  let ?n = "GetRows v"
  have "\<forall>i\<in>set [0..<?n]. i < length (replicate ?n NoBound)"
    by simp
  from GetBounds_loop_update[OF this] obtain bs where bs:
    "GetBounds_loop [0..<?n] (replicate ?n NoBound) = Inr bs"
    "length bs = ?n"
    "\<forall>j<?n. bs ! j = Bounds (- M_PI) M_PI"
    by auto
  have "bs = replicate ?n (Bounds (- M_PI) M_PI)"
    using bs(2,3) by (intro nth_equalityI) simp_all
  with bs(1) show ?thesis
    by (simp add: GetBounds_def)
qed

text \<open>
  Claim C6. Whatever the state of the variable set, \<open>GetBounds()\<close> succeeds and returns one
  pair per row, every pair being \<open>(-\<pi>, +\<pi>)\<close>; the number of rows is the model's \<open>n_q\<close>
  from construction on, and \<open>SetVariables\<close> does not change it. The stored vector \<open>q\<close> does
  not occur in the result.
\<close>

theorem GetBounds_all_minus_pi_pi:
  "GetBounds v = Inr (replicate (GetRows v) (Bounds (- pi) pi))
   \<and> GetRows (IKVariables_new nm mdl q0) = n_q mdl
   \<and> GetRows (SetVariables v qin) = GetRows v"
  using GetBounds_replicate[of v]
  by (simp add: M_PI_def GetRows_def IKVariables_new_def SetVariables_def Let_def)

text \<open>
  Claim C7. \<open>SetVariables(v)\<close> followed by \<open>GetValues()\<close> gives back exactly \<open>v\<close>; this holds
  for a vector of any length, so in particular for one of length \<open>n_q\<close>.
\<close>

theorem SetVariables_GetValues_roundtrip:
  "GetValues (SetVariables v qin) = qin"
  by (simp add: GetValues_def SetVariables_def)

section \<open>Properties of the cost\<close>

lemma sum_times_delta:
  fixes f :: "nat \<Rightarrow> 'a::semiring_1"
  shows "(\<Sum>k<n. f k * (if k = j then 1 else 0)) = (if j < n then f j else 0)"
proof -
  have "(\<Sum>k<n. f k * (if k = j then 1 else 0)) = (\<Sum>k\<in>{..<n}. if k = j then f k else 0)"
    by (rule sum.cong) simp_all
  also have "\<dots> = (if j \<in> {..<n} then f j else 0)"
    by (rule sum.delta) simp
  finally show ?thesis by simp
qed

lemma component_map_Vector3: "component (map_Vector3 f v) i = f (component v i)"
  by (cases v) simp

lemma orientation_error_3x3:
  "orientation_error (matrix3 Rd) (matrix3 Rc) = Inr (trace_error Rd Rc)"
  by (simp add: orientation_error_def mat_mult_def transpose_m_def matrix3_def Identity_def
      mat_sub_def bind_Inr diagonal_sum_def trace_error_def)

lemma quadratic_form_identity:
  fixes v :: "nat \<Rightarrow> 'a::semiring_1"
  shows "quadratic_form n v (\<lambda>i j. if i = j then 1 else 0) = (\<Sum>j<n. v j * v j)"
  unfolding quadratic_form_def
  by (rule sum.cong) (simp_all add: sum_times_delta)

lemma quadratic_form_scaled_identity:
  fixes v :: "nat \<Rightarrow> 'a::comm_semiring_1"
  shows "quadratic_form n v (\<lambda>i j. c * (if i = j then 1 else 0)) = (\<Sum>j<n. v j * c * v j)"
proof -
  have "(\<Sum>i<n. v i * (c * (if i = j then 1 else 0))) = (if j < n then v j * c else 0)" for j
    using sum_times_delta[where f = "\<lambda>i. v i * c" and n = n and j = j] by (simp add: mult.assoc)
  then show ?thesis
    unfolding quadratic_form_def by (intro sum.cong) simp_all
qed

lemma cost_cases:
  fixes q :: "('a::{comm_ring_1,real_algebra_1}) list"
  shows "bind (cost forward_kinematics rot2rpy q mdl source target desired) (\<lambda>M. Inr (rows M, cols M, coeff M 0 0)) =
     (case forward_kinematics mdl q source target of
        Inl e \<Rightarrow> Inl e
      | Inr H \<Rightarrow> if length q = n_q mdl then Inr (1, 1, pose_error_cost H q desired)
                 else Inl DimensionMismatch)"
  apply (cases "forward_kinematics mdl q source target")
   apply (simp add: cost_def bind_Inl)
  apply (simp add: cost_def bind_Inr Let_def orientation_error_3x3)
  apply (simp add: mat_sub_def vector3_def bind_Inr bind_Inl mat_mult_def transpose_m_def scale_def Identity_def
      col_vector_def scalar_matrix_def mat_add_def sum_times_delta component_map_Vector3
      pose_error_cost_def quadratic_form_identity quadratic_form_scaled_identity)
  done

text \<open>
  Claim C1. For a configuration vector of length \<open>n_q\<close> on which the forward kinematics
  succeeds, \<open>cost\<close> returns a 1x1 matrix, in the scalar type of \<open>q\<close>, whose entry is the
  sum of the translation term (the quadratic form of the translation difference with the
  3x3 identity), the regularization term (the quadratic form of \<open>q\<close> with 1e-6 times the
  identity) and the orientation term (the orientation error times 50 times itself).
\<close>

theorem cost_is_sum_of_three_terms:
  fixes q :: "('a::{comm_ring_1,real_algebra_1}) list"
  assumes "length q = n_q mdl"
    and "forward_kinematics mdl q source target = Inr Hst_current"
  shows "\<exists>M e. cost forward_kinematics rot2rpy q mdl source target desired = Inr M
           \<and> rows M = 1 \<and> cols M = 1
           \<and> orientation_error (matrix3 (map_Matrix3 of_real (linear desired)))
                (matrix3 (linear Hst_current)) = Inr e
           \<and> coeff M 0 0 =
               quadratic_form 3
                 (\<lambda>i. component (translation Hst_current) i
                        - of_real (component (translation desired) i))
                 (\<lambda>i j. if i = j then 1 else 0)
               + quadratic_form (n_q mdl) (\<lambda>i. q ! i)
                   (\<lambda>i j. of_real (1 / 1000000) * (if i = j then 1 else 0))
               + e * 50 * e"
proof -
  have "bind (cost forward_kinematics rot2rpy q mdl source target desired)
          (\<lambda>M. Inr (rows M, cols M, coeff M 0 0)) = Inr (1, 1, pose_error_cost Hst_current q desired)"
    using assms by (simp add: cost_cases)
  then obtain M where M: "cost forward_kinematics rot2rpy q mdl source target desired = Inr M"
    "rows M = 1" "cols M = 1" "coeff M 0 0 = pose_error_cost Hst_current q desired"
    by (cases "cost forward_kinematics rot2rpy q mdl source target desired")
      (simp_all add: bind_Inl bind_Inr)
  show ?thesis
    using M assms(1) by (simp add: orientation_error_3x3 pose_error_cost_def)
qed


lemma slider_kinematics_example:
  "slider_kinematics slider_model [1, 2] ''base'' ''tool'' =
     Inr \<lparr>linear = Matrix3 (Vector3 0 (- 1) 0) (Vector3 1 0 0) (Vector3 0 0 1),
          translation = Vector3 5 0 0\<rparr>"
  by (simp add: slider_kinematics_def slider_model_def)

theorem cost_is_sum_of_three_terms_witness:
  "\<exists>M e. cost slider_kinematics no_rpy [1, 2 :: real] slider_model ''base'' ''tool'' slider_pose
             = Inr M
         \<and> rows M = 1 \<and> cols M = 1
         \<and> orientation_error (matrix3 (linear slider_pose))
              (matrix3 (Matrix3 (Vector3 0 (- 1) 0) (Vector3 1 0 0) (Vector3 0 0 1))) = Inr e
         \<and> e = 2 \<and> coeff M 0 0 = 17 + 5 / 1000000 + 2 * 50 * 2"
proof -
  have len: "length [1, 2 :: real] = n_q slider_model"
    by (simp add: slider_model_def)
  from cost_is_sum_of_three_terms[where forward_kinematics = slider_kinematics,
      OF len slider_kinematics_example, of no_rpy slider_pose]
  obtain M e where M:
    "cost slider_kinematics no_rpy [1, 2 :: real] slider_model ''base'' ''tool'' slider_pose
       = Inr M"
    "rows M = 1" "cols M = 1"
    "orientation_error (matrix3 (linear slider_pose))
       (matrix3 (Matrix3 (Vector3 0 (- 1) 0) (Vector3 1 0 0) (Vector3 0 0 1))) = Inr e"
    "coeff M 0 0 =
       quadratic_form 3 (\<lambda>i. component (Vector3 5 0 0) i - component (translation slider_pose) i)
         (\<lambda>i j. if i = j then 1 else 0)
       + quadratic_form (n_q slider_model) (\<lambda>i. [1, 2] ! i)
           (\<lambda>i j. (1 / 1000000) * (if i = j then 1 else 0))
       + e * 50 * e"
    by (auto simp: Matrix3.map_id0)
  have e: "e = 2"
    using M(4)
    by (simp add: orientation_error_3x3 trace_error_def slider_pose_def lessThan_Suc
        numeral_3_eq_3)
  have "coeff M 0 0 = 17 + 5 / 1000000 + 2 * 50 * 2"
    unfolding M(5) e
    by (simp add: quadratic_form_def lessThan_Suc numeral_3_eq_3 numeral_2_eq_2
        slider_pose_def slider_model_def)
  with M e show ?thesis
    by blast
qed




lemma cost_succeeds:
  fixes q :: "('a::{comm_ring_1,real_algebra_1}) list"
  assumes "forward_kinematics mdl q source target = Inr H" and "length q = n_q mdl"
  shows "\<exists>M. cost forward_kinematics rot2rpy q mdl source target desired = Inr M
           \<and> rows M = 1 \<and> cols M = 1 \<and> coeff M 0 0 = pose_error_cost H q desired"
proof -
  have "bind (cost forward_kinematics rot2rpy q mdl source target desired)
          (\<lambda>M. Inr (rows M, cols M, coeff M 0 0)) = Inr (1, 1, pose_error_cost H q desired)"
    using assms by (simp add: cost_cases)
  then show ?thesis
    by (cases "cost forward_kinematics rot2rpy q mdl source target desired")
      (simp_all add: bind_Inl bind_Inr)
qed

lemma dual_of_real: "(of_real r :: dual) = Dual r 0"
  by (simp add: of_real_def scaleR_dual_def one_dual_def)


lemma grad_of_real: "grad (of_real r) = 0"
  by (simp add: dual_of_real)


















lemma slider_GetComponent:
  "GetComponent slider_variables ''configuration_vector''
     = Inr (IKVariables_new ''configuration_vector'' slider_model [1, 2])"
  by (simp add: GetComponent_def slider_variables_def GetName_def IKVariables_new_def Let_def)

lemma slider_GetValues:
  "GetValues (IKVariables_new ''configuration_vector'' slider_model [1, 2]) = [1, 2]"
  by (simp add: GetValues_def IKVariables_new_def Let_def)






section \<open>Properties of the Jacobian block\<close>

lemma seed_unseed:
  assumes "\<forall>i<length x. grad (x ! i) = 0"
  shows "seed (seed x i 1) i 0 = x"
proof (cases "i < length x")
  case True
  then have "Dual (val (x ! i)) 0 = x ! i"
    using assms by (simp add: dual.expand)
  then show ?thesis
    using True by (simp add: seed_def)
next
  case False
  then show ?thesis by (simp add: seed_def list_update_beyond)
qed

lemma jacobian_loop_result:
  assumes "\<forall>i<length x. grad (x ! i) = 0"
    and "rows J = 1"
    and "\<forall>i\<in>set idxs. i < cols J"
    and "\<forall>i\<in>set idxs. \<exists>F. f (seed x i 1) = Inr F \<and> rows F = 1 \<and> cols F = 1
           \<and> grad (coeff F 0 0) = D i"
  shows "\<exists>J'. jacobian_loop f idxs x J = Inr J' \<and> rows J' = 1 \<and> cols J' = cols J
           \<and> (\<forall>i. coeff J' 0 i = (if i \<in> set idxs then D i else coeff J 0 i))"
  using assms(2-4)
proof (induction idxs arbitrary: J)
  case Nil
  then show ?case by simp
next
  case (Cons k idxs)
  from Cons.prems(3) obtain F where F: "f (seed x k 1) = Inr F" "rows F = 1" "cols F = 1"
    "grad (coeff F 0 0) = D k"
    by auto
  define J1 where "J1 = J\<lparr>coeff := (coeff J)(0 := (coeff J 0)(k := D k))\<rparr>"
  have k: "k < cols J"
    using Cons.prems(2) by simp
  have step: "jacobian_loop f (k # idxs) x J = jacobian_loop f idxs x J1"
    using F k Cons.prems(1) assms(1)
    by (simp add: bind_Inr coeffRef_def J1_def seed_unseed)
  have "rows J1 = 1" "\<forall>i\<in>set idxs. i < cols J1"
    using Cons.prems(1,2) by (simp_all add: J1_def)
  moreover have "\<forall>i\<in>set idxs. \<exists>F. f (seed x i 1) = Inr F \<and> rows F = 1 \<and> cols F = 1
      \<and> grad (coeff F 0 0) = D i"
    using Cons.prems(3) by simp
  ultimately obtain J' where J': "jacobian_loop f idxs x J1 = Inr J'" "rows J' = 1"
    "cols J' = cols J1"
    "\<forall>i. coeff J' 0 i = (if i \<in> set idxs then D i else coeff J1 0 i)"
    using Cons.IH[of J1] by blast
  have "\<forall>i. coeff J' 0 i = (if i \<in> set (k # idxs) then D i else coeff J 0 i)"
    using J'(4) by (simp add: J1_def)
  with step J'(1-3) show ?case
    by (simp add: J1_def)
qed

lemma FillJacobianBlock_loop_result:
  assumes "0 < rows J" and "0 < rows jac"
    and "\<forall>i\<in>set idxs. i < cols J \<and> i < cols jac"
  shows "\<exists>jac'. FillJacobianBlock_loop idxs J jac = Inr jac' \<and> rows jac' = rows jac
           \<and> cols jac' = cols jac
           \<and> (\<forall>i. coeff jac' 0 i = (if i \<in> set idxs then coeff J 0 i else coeff jac 0 i))"
  using assms(2,3)
proof (induction idxs arbitrary: jac)
  case Nil
  then show ?case by simp
next
  case (Cons k idxs)
  define jac1 where "jac1 = jac\<lparr>coeff := (coeff jac)(0 := (coeff jac 0)(k := coeff J 0 k))\<rparr>"
  have step: "FillJacobianBlock_loop (k # idxs) J jac = FillJacobianBlock_loop idxs J jac1"
    using Cons.prems assms(1) by (simp add: bind_Inr at_m_def coeffRef_def jac1_def)
  have "0 < rows jac1" "\<forall>i\<in>set idxs. i < cols J \<and> i < cols jac1"
    using Cons.prems by (simp_all add: jac1_def)
  from Cons.IH[OF this] obtain jac' where jac':
    "FillJacobianBlock_loop idxs J jac1 = Inr jac'" "rows jac' = rows jac1"
    "cols jac' = cols jac1"
    "\<forall>i. coeff jac' 0 i = (if i \<in> set idxs then coeff J 0 i else coeff jac1 0 i)"
    by blast
  have "\<forall>i. coeff jac' 0 i = (if i \<in> set (k # idxs) then coeff J 0 i else coeff jac 0 i)"
    using jac'(4) by (simp add: jac1_def)
  with step jac'(1-3) show ?case
    by (simp add: jac1_def)
qed

text \<open>
  Claim C2. With the variable set's vector of length \<open>n_q\<close> (and the forward kinematics
  succeeding at the seeded points), \<open>FillJacobianBlock\<close> for the name
  "configuration_vector" succeeds with a block of \<open>n_q\<close> columns (and one row, when there
  is a column at all) whose column \<open>i\<close> holds the derivative part of the very function
  \<open>cost\<close>, evaluated in dual numbers at the current values with the derivative part of
  \<open>q(i)\<close> set to 1 and all others 0: forward-mode differentiation of the cost function that
  \<open>GetCost\<close> evaluates, with no finite difference and no second formula.
\<close>

theorem FillJacobianBlock_forward_mode:
  assumes cv: "GetComponent vars ''configuration_vector'' = Inr cv"
    and len: "length (GetValues cv) = n_q (model c)"
    and fk: "\<forall>i<n_q (model c). \<exists>H.
               forward_kinematics (model c) (seed (map of_real (GetValues cv)) i 1)
                 (source_link_name c) (target_link_name c) = Inr H"
  shows "\<exists>J. FillJacobianBlock forward_kinematics rot2rpy c ''configuration_vector'' jac vars = Inr J
           \<and> cols J = n_q (model c)
           \<and> (0 < n_q (model c) \<longrightarrow> rows J = 1)
           \<and> (\<forall>i<n_q (model c). \<exists>F.
                 cost forward_kinematics rot2rpy (seed (map of_real (GetValues cv)) i 1) (model c)
                   (source_link_name c) (target_link_name c) (desired_pose c) = Inr F
                 \<and> coeff J 0 i = grad (coeff F 0 0))"
proof (cases "n_q (model c) = 0")
  case True
  then show ?thesis
    using cv len by (simp add: FillJacobianBlock_def bind_Inr jacobian_def Zero_def)
next
  case False
  let ?n = "n_q (model c)"
  let ?x = "map of_real (GetValues cv) :: dual list"
  let ?f = "\<lambda>x. cost forward_kinematics rot2rpy x (model c) (source_link_name c)
                 (target_link_name c) (desired_pose c)"
  define D where "D i = grad (pose_error_cost
      (projr (forward_kinematics (model c) (seed ?x i 1) (source_link_name c) (target_link_name c)))
      (seed ?x i 1) (desired_pose c))" for i
  have F: "\<exists>F. ?f (seed ?x i 1) = Inr F \<and> rows F = 1 \<and> cols F = 1 \<and> grad (coeff F 0 0) = D i"
    if "i < ?n" for i
  proof -
    from fk that obtain H where H: "forward_kinematics (model c) (seed ?x i 1)
        (source_link_name c) (target_link_name c) = Inr H"
      by blast
    have "length (seed ?x i 1) = ?n"
      using len by (simp add: seed_def)
    from cost_succeeds[where forward_kinematics = forward_kinematics and rot2rpy = rot2rpy
        and desired = "desired_pose c", OF H this]
    show ?thesis
      by (auto simp: D_def H)
  qed
  have x0: "\<forall>i<length ?x. grad (?x ! i) = 0"
    by (simp add: grad_of_real)
  have "\<exists>J'. jacobian_loop ?f [0..<?n] ?x (Zero 1 ?n) = Inr J' \<and> rows J' = 1
      \<and> cols J' = cols (Zero 1 ?n :: real matrix)
      \<and> (\<forall>i. coeff J' 0 i = (if i \<in> set [0..<?n] then D i else coeff (Zero 1 ?n :: real matrix) 0 i))"
    by (rule jacobian_loop_result[OF x0]) (use F in \<open>auto simp: Zero_def\<close>)
  then obtain J' where J': "jacobian ?f ?x = Inr J'" "rows J' = 1" "cols J' = ?n"
    "\<forall>i<?n. coeff J' 0 i = D i"
    using False len by (auto simp: jacobian_def Zero_def)
  have "\<exists>jac'. FillJacobianBlock_loop [0..<?n] J' (Zero (rows J') (cols J')) = Inr jac'
      \<and> rows jac' = rows (Zero (rows J') (cols J') :: real matrix) 
      \<and> cols jac' = cols (Zero (rows J') (cols J') :: real matrix)
      \<and> (\<forall>i. coeff jac' 0 i = (if i \<in> set [0..<?n] then coeff J' 0 i
                                  else coeff (Zero (rows J') (cols J') :: real matrix) 0 i))"
    by (rule FillJacobianBlock_loop_result) (use J' in \<open>auto simp: Zero_def\<close>)
  then obtain jac' where jac':
    "FillJacobianBlock_loop [0..<?n] J' (Zero (rows J') (cols J')) = Inr jac'"
    "rows jac' = 1" "cols jac' = ?n" "\<forall>i<?n. coeff jac' 0 i = D i"
    using J'(2-4) by (auto simp: Zero_def)
  have "FillJacobianBlock forward_kinematics rot2rpy c ''configuration_vector'' jac vars = Inr jac'"
    using cv J'(1) jac'(1) by (simp add: FillJacobianBlock_def bind_Inr)
  moreover have "\<exists>F. ?f (seed ?x i 1) = Inr F \<and> coeff jac' 0 i = grad (coeff F 0 0)"
    if "i < ?n" for i
    using F[OF that] jac'(4) that by auto
  ultimately show ?thesis
    using jac'(2,3) by auto
qed

lemma dual_numeral: "(numeral n :: dual) = Dual (numeral n) 0"
  using dual_of_real[of "numeral n"] by simp

lemma grad_pose_error_cost_slider:
  "grad (pose_error_cost
     \<lparr>linear = Matrix3 (Vector3 0 (- 1) 0) (Vector3 1 0 0) (Vector3 0 0 1),
      translation = Vector3 (Dual x dx) 0 0\<rparr> [Dual a da, Dual b db] slider_pose)
   = 2 * (x - 1) * dx + 2 * a * da / 1000000 + 2 * b * db / 1000000"
  by (simp add: pose_error_cost_def quadratic_form_def trace_error_def lessThan_Suc
      numeral_3_eq_3 slider_pose_def dual_of_real dual_numeral plus_dual_def minus_dual_def
      times_dual_def zero_dual_def one_dual_def uminus_dual_def algebra_simps)

lemma slider_kinematics_seeded:
  "slider_kinematics (cast_model of_real slider_model) [Dual a da, Dual b db] ''base'' ''tool''
   = Inr \<lparr>linear = Matrix3 (Vector3 0 (- 1) 0) (Vector3 1 0 0) (Vector3 0 0 1),
          translation = Vector3 (Dual (a + 2 * b) (da + 2 * db)) 0 0\<rparr>"
  by (simp add: slider_kinematics_def slider_model_def cast_model_def dual_of_real
      plus_dual_def times_dual_def zero_dual_def)

theorem FillJacobianBlock_forward_mode_witness:
  "\<exists>J. FillJacobianBlock slider_kinematics no_rpy slider_cost ''configuration_vector''
          (Zero 1 2) slider_variables = Inr J
       \<and> rows J = 1 \<and> cols J = 2
       \<and> coeff J 0 0 = 8 + 2 / 1000000 \<and> coeff J 0 1 = 16 + 4 / 1000000"
proof -
  let ?cv = "IKVariables_new ''configuration_vector'' slider_model [1, 2]"
  have n: "n_q (model slider_cost) = 2"
    by (simp add: slider_cost_def IKCost_new_def cast_model_def slider_model_def)
  have len: "length (GetValues ?cv) = n_q (model slider_cost)"
    by (simp add: n slider_GetValues)
  have s0: "seed (map of_real (GetValues ?cv)) 0 1 = [Dual 1 1, Dual 2 0]"
    and s1: "seed (map of_real (GetValues ?cv)) 1 1 = [Dual 1 0, Dual 2 1]"
    by (simp_all add: slider_GetValues seed_def dual_of_real)
  have fk: "\<forall>i<n_q (model slider_cost). \<exists>H.
      slider_kinematics (model slider_cost) (seed (map of_real (GetValues ?cv)) i 1)
        (source_link_name slider_cost) (target_link_name slider_cost) = Inr H"
    by (simp add: slider_kinematics_def slider_cost_def IKCost_new_def cast_model_def
        slider_model_def)
  from FillJacobianBlock_forward_mode[where forward_kinematics = slider_kinematics
      and rot2rpy = no_rpy and jac = "Zero 1 2", OF slider_GetComponent len fk]
  obtain J where J:
    "FillJacobianBlock slider_kinematics no_rpy slider_cost ''configuration_vector''
       (Zero 1 2) slider_variables = Inr J"
    "cols J = 2" "rows J = 1"
    "\<forall>i<2. \<exists>F. cost slider_kinematics no_rpy (seed (map of_real (GetValues ?cv)) i 1)
        (model slider_cost) (source_link_name slider_cost) (target_link_name slider_cost)
        (desired_pose slider_cost) = Inr F \<and> coeff J 0 i = grad (coeff F 0 0)"
    unfolding n by auto
  have c: "grad (coeff F 0 0) = 2 * (a + 2 * b - 1) * (da + 2 * db)
              + 2 * a * da / 1000000 + 2 * b * db / 1000000"
    if "cost slider_kinematics no_rpy [Dual a da, Dual b db] (model slider_cost)
          (source_link_name slider_cost) (target_link_name slider_cost)
          (desired_pose slider_cost) = Inr F" for F a da b db
  proof -
    have l: "length [Dual a da, Dual b db] = n_q (cast_model of_real slider_model)"
      by (simp add: cast_model_def slider_model_def)
    from cost_succeeds[where forward_kinematics = slider_kinematics and rot2rpy = no_rpy
        and desired = slider_pose, OF slider_kinematics_seeded l] that
    show ?thesis
      by (auto simp: slider_cost_def IKCost_new_def grad_pose_error_cost_slider)
  qed
  from J(4) obtain F0 F1 where
    "cost slider_kinematics no_rpy [Dual 1 1, Dual 2 0] (model slider_cost)
       (source_link_name slider_cost) (target_link_name slider_cost)
       (desired_pose slider_cost) = Inr F0" "coeff J 0 0 = grad (coeff F0 0 0)"
    "cost slider_kinematics no_rpy [Dual 1 0, Dual 2 1] (model slider_cost)
       (source_link_name slider_cost) (target_link_name slider_cost)
       (desired_pose slider_cost) = Inr F1" "coeff J 0 1 = grad (coeff F1 0 0)"
    unfolding s0[symmetric] s1[symmetric] by (metis one_less_numeral_iff pos2 semiring_norm(76))
  then have "coeff J 0 0 = 8 + 2 / 1000000" "coeff J 0 1 = 16 + 4 / 1000000"
    using c by simp_all
  with J(1-3) show ?thesis
    by blast
qed

section \<open>The orientation error\<close>

lemma trace_error_components:
  "trace_error (Matrix3 (Vector3 a b c) (Vector3 d e f) (Vector3 g h i))
               (Matrix3 (Vector3 a' b' c') (Vector3 d' e' f') (Vector3 g' h' i'))
   = 3 - (a * a' + b * b' + c * c' + d * d' + e * e' + f * f' + g * g' + h * h' + i * i')"
  by (simp add: trace_error_def lessThan_Suc numeral_3_eq_3 algebra_simps)

lemma sum_of_nine_squares_zero:
  fixes x1 :: real
  assumes "x1 * x1 + x2 * x2 + x3 * x3 + x4 * x4 + x5 * x5 + x6 * x6 + x7 * x7 + x8 * x8 + x9 * x9 = 0"
  shows "x1 = 0 \<and> x2 = 0 \<and> x3 = 0 \<and> x4 = 0 \<and> x5 = 0 \<and> x6 = 0 \<and> x7 = 0 \<and> x8 = 0 \<and> x9 = 0"
proof -
  have "(\<Sum>x\<leftarrow>[x1, x2, x3, x4, x5, x6, x7, x8, x9]. x * x) = 0"
    using assms by simp
  then have "\<forall>x\<in>set [x1, x2, x3, x4, x5, x6, x7, x8, x9]. x * x = 0"
    by (subst (asm) sum_list_nonneg_eq_0_iff) auto
  then show ?thesis by simp
qed

lemma trace_error_zero_iff:
  assumes "is_rotation Rd" and "is_rotation Rc"
  shows "trace_error Rd Rc = 0 \<longleftrightarrow> Rd = Rc"
proof -
  obtain a b c d e f g h i where Rd: "Rd = Matrix3 (Vector3 a b c) (Vector3 d e f) (Vector3 g h i)"
    by (metis Matrix3.exhaust Vector3.exhaust)
  obtain a' b' c' d' e' f' g' h' i' where
    Rc: "Rc = Matrix3 (Vector3 a' b' c') (Vector3 d' e' f') (Vector3 g' h' i')"
    by (metis Matrix3.exhaust Vector3.exhaust)
  have nd: "a * a + b * b + c * c + d * d + e * e + f * f + g * g + h * h + i * i = 3"
    using assms(1) by (simp add: Rd)
  have nc: "a' * a' + b' * b' + c' * c' + d' * d' + e' * e' + f' * f' + g' * g' + h' * h' + i' * i' = 3"
    using assms(2) by (simp add: Rc)
  have half: "2 * trace_error Rd Rc =
      (a - a') * (a - a') + (b - b') * (b - b') + (c - c') * (c - c')
      + (d - d') * (d - d') + (e - e') * (e - e') + (f - f') * (f - f')
      + (g - g') * (g - g') + (h - h') * (h - h') + (i - i') * (i - i')"
    using nd nc by (simp add: Rd Rc trace_error_components algebra_simps)
  show ?thesis
  proof
    assume "trace_error Rd Rc = 0"
    with half have "(a - a') * (a - a') + (b - b') * (b - b') + (c - c') * (c - c')
      + (d - d') * (d - d') + (e - e') * (e - e') + (f - f') * (f - f')
      + (g - g') * (g - g') + (h - h') * (h - h') + (i - i') * (i - i') = 0"
      by simp
    from sum_of_nine_squares_zero[OF this] show "Rd = Rc"
      by (simp add: Rd Rc)
  next
    assume "Rd = Rc"
    then show "trace_error Rd Rc = 0"
      using nd by (simp add: Rd Rc trace_error_components)
  qed
qed

text \<open>
  Claim C8. For rotation matrices \<open>R_desired\<close> and \<open>R_current\<close>, the orientation error that
  \<open>cost\<close> computes, the trace of \<open>I - R_desired R_current\<^sup>T\<close>, is zero exactly when the two
  rotations are the same matrix. (It is half the sum of the squared differences of the
  coefficients.)
\<close>

theorem orientation_error_zero_iff_same_rotation:
  assumes "is_rotation R_desired" and "is_rotation R_current"
  shows "orientation_error (matrix3 R_desired) (matrix3 R_current) = Inr 0
         \<longleftrightarrow> R_desired = R_current"
  using trace_error_zero_iff[OF assms] by (simp add: orientation_error_3x3)

theorem orientation_error_zero_iff_same_rotation_witness:
  "is_rotation (Matrix3 (Vector3 0 (- 1) 0) (Vector3 1 0 0) (Vector3 0 0 1))
   \<and> is_rotation (Matrix3 (Vector3 1 0 0) (Vector3 0 1 0) (Vector3 0 0 1))
   \<and> orientation_error (matrix3 (Matrix3 (Vector3 1 0 0) (Vector3 0 1 0) (Vector3 0 0 1)))
        (matrix3 (Matrix3 (Vector3 0 (- 1) 0) (Vector3 1 0 0) (Vector3 0 0 (1::real)))) \<noteq> Inr 0
   \<and> orientation_error (matrix3 (Matrix3 (Vector3 0 (- 1) 0) (Vector3 1 0 0) (Vector3 0 0 1)))
        (matrix3 (Matrix3 (Vector3 0 (- 1) 0) (Vector3 1 0 0) (Vector3 0 0 (1::real)))) = Inr 0"
proof -
  have q: "is_rotation (Matrix3 (Vector3 0 (- 1) 0) (Vector3 1 0 0) (Vector3 0 0 1))"
    by simp
  have i: "is_rotation (Matrix3 (Vector3 1 0 0) (Vector3 0 1 0) (Vector3 0 0 1))"
    by simp
  show ?thesis
    using orientation_error_zero_iff_same_rotation[OF i q]
      orientation_error_zero_iff_same_rotation[OF q q] q i
    by simp
qed

section \<open>The length of the stored vector\<close>

text \<open>
  Claim C5 as stated says that a vector whose length differs from \<open>n_q\<close> is refused. Here
  \<open>n_q\<close> is 2 and a vector of length 3 is supplied, to the constructor and to
  \<open>SetVariables\<close>: both go through, and the stored vector has taken the length 3.
\<close>

theorem IKVariables_wrong_length_counterexample:
  "length [1, 2, 3 :: real] \<noteq> n_q slider_model
   \<and> GetValues (IKVariables_new ''configuration_vector'' slider_model [1, 2, 3]) = [1, 2, 3]
   \<and> GetValues (SetVariables (IKVariables_new ''configuration_vector'' slider_model [1, 2])
        [1, 2, 3]) = [1, 2, 3]"
  by (simp add: slider_model_def GetValues_def IKVariables_new_def SetVariables_def Let_def)

text \<open>
  Claim C5, as the code has it. The constructor and \<open>SetVariables\<close> make no check of the
  length and have no way to fail: the stored vector becomes exactly the supplied one,
  whatever its length, and the number of rows (\<open>n_q\<close> from construction on) and the name
  stay as they are.
\<close>

theorem IKVariables_store_any_length:
  "GetValues (IKVariables_new nm mdl q0) = q0
   \<and> GetRows (IKVariables_new nm mdl q0) = n_q mdl
   \<and> GetValues (SetVariables v qin) = qin
   \<and> GetRows (SetVariables v qin) = GetRows v
   \<and> GetName (SetVariables v qin) = GetName v"
  by (simp add: GetValues_def GetRows_def GetName_def IKVariables_new_def SetVariables_def
      Let_def)

section \<open>Properties of the constraint set\<close>

text \<open>
  Claim C10. Let the variable set "var_set1" have as many values as rows, and let the
  Jacobian block have one row and one column per row of the variable set. Then
  \<open>GetValues\<close> and \<open>FillJacobianBlock\<close> of the constraint succeed exactly when the variable
  set has at least 2 components, with residual \<open>x0^2 + x1\<close> and Jacobian entries \<open>2*x0\<close> and
  \<open>1\<close>; with fewer components the access is out of range. (\<open>GetValues\<close> reads components
  0 and 1; \<open>FillJacobianBlock\<close> reads component 0 and writes columns 0 and 1.)
\<close>

theorem IKConstraint_needs_two_components:
  assumes "GetComponent vars ''var_set1'' = Inr cv"
    and "length (GetValues cv) = GetRows cv"
    and "rows jac_block = 1" and "cols jac_block = GetRows cv"
  shows "IKConstraint_GetValues (IKConstraint_new nm) vars =
           (if 2 \<le> GetRows cv then Inr [GetValues cv ! 0 ^ 2 + GetValues cv ! 1]
            else Inl IndexOutOfRange)
       \<and> IKConstraint_FillJacobianBlock (IKConstraint_new nm) ''var_set1'' jac_block vars =
           (if 2 \<le> GetRows cv
            then Inr (jac_block\<lparr>coeff := (coeff jac_block)
                       (0 := (coeff jac_block 0)(0 := 2 * GetValues cv ! 0, 1 := 1))\<rparr>)
            else Inl IndexOutOfRange)"
proof -
  consider "GetRows cv = 0" | "GetRows cv = 1" | "2 \<le> GetRows cv"
    by linarith
  then show ?thesis
  proof cases
    case 1
    then show ?thesis
      using assms
      by (auto simp: IKConstraint_GetValues_def IKConstraint_FillJacobianBlock_def
          IKConstraint_new_def bind_Inr bind_Inl vec_at_def vec_set_def resize_def coeffRef_def
          Let_def)
  next
    case 2
    then show ?thesis
      using assms
      by (auto simp: IKConstraint_GetValues_def IKConstraint_FillJacobianBlock_def
          IKConstraint_new_def bind_Inr bind_Inl vec_at_def vec_set_def resize_def coeffRef_def
          Let_def)
  next
    case 3
    then show ?thesis
      using assms
      by (auto simp: IKConstraint_GetValues_def IKConstraint_FillJacobianBlock_def
          IKConstraint_new_def bind_Inr bind_Inl vec_at_def vec_set_def resize_def coeffRef_def
          Let_def)
  qed
qed

theorem IKConstraint_needs_two_components_witness:
  "IKConstraint_GetValues (IKConstraint_new ''constraint1'')
     [\<lparr>var_name = ''var_set1'', var_rows = 2, var_q = [3, 4]\<rparr>] = Inr [13]
   \<and> (\<exists>J. IKConstraint_FillJacobianBlock (IKConstraint_new ''constraint1'') ''var_set1''
             (Zero 1 2) [\<lparr>var_name = ''var_set1'', var_rows = 2, var_q = [3, 4]\<rparr>] = Inr J
           \<and> coeff J 0 0 = 6 \<and> coeff J 0 1 = 1)
   \<and> IKConstraint_GetValues (IKConstraint_new ''constraint1'')
     [\<lparr>var_name = ''var_set1'', var_rows = 1, var_q = [3]\<rparr>] = Inl IndexOutOfRange
   \<and> IKConstraint_FillJacobianBlock (IKConstraint_new ''constraint1'') ''var_set1''
        (Zero 1 1) [\<lparr>var_name = ''var_set1'', var_rows = 1, var_q = [3]\<rparr>]
      = Inl IndexOutOfRange"
proof -
  let ?v2 = "\<lparr>var_name = ''var_set1'', var_rows = 2, var_q = [3, 4]\<rparr>"
  let ?v1 = "\<lparr>var_name = ''var_set1'', var_rows = 1, var_q = [3]\<rparr>"
  have c2: "GetComponent [?v2] ''var_set1'' = Inr ?v2"
    and c1: "GetComponent [?v1] ''var_set1'' = Inr ?v1"
    by (simp_all add: GetComponent_def GetName_def)
  have l2: "length (GetValues ?v2) = GetRows ?v2" and l1: "length (GetValues ?v1) = GetRows ?v1"
    by (simp_all add: GetValues_def GetRows_def)
  have r2: "rows (Zero 1 2 :: real matrix) = 1" "cols (Zero 1 2 :: real matrix) = GetRows ?v2"
    and r1: "rows (Zero 1 1 :: real matrix) = 1" "cols (Zero 1 1 :: real matrix) = GetRows ?v1"
    by (simp_all add: Zero_def GetRows_def)
  show ?thesis
    using IKConstraint_needs_two_components[OF c2 l2 r2, of "''constraint1''"]
      IKConstraint_needs_two_components[OF c1 l1 r1, of "''constraint1''"]
    by (simp add: GetRows_def GetValues_def)
qed

section \<open>Properties of the solve driver\<close>

text \<open>
  Claim C9, as the code has it. Every call configures the solver with the exact Jacobian,
  at most 250 iterations and the acceptable tolerance 1e-9, and hands exactly this solver
  to \<open>Solve\<close>. The configured solver is the same whatever the model, the link names, the
  desired pose and the initial guess are: the entry point has no argument that changes a
  setting.
\<close>

theorem solver_settings_fixed:
  "options (fst (inverse_kinematics_setup ipopt mdl source target desired q0))
     ''jacobian_approximation'' = Some (StringValue ''exact'')
   \<and> options (fst (inverse_kinematics_setup ipopt mdl source target desired q0))
     ''max_iter'' = Some (IntegerValue 250)
   \<and> options (fst (inverse_kinematics_setup ipopt mdl source target desired q0))
     ''acceptable_tol'' = Some (NumericValue (1 / 1000000000))
   \<and> fst (inverse_kinematics_setup ipopt mdl source target desired q0)
     = fst (inverse_kinematics_setup ipopt mdl' source' target' desired' q0')
   \<and> inverse_kinematics Solve ipopt mdl source target desired q0
     = bind (Solve (fst (inverse_kinematics_setup ipopt mdl source target desired q0))
               (snd (inverse_kinematics_setup ipopt mdl source target desired q0)))
         (\<lambda>nlp. Inr (GetOptVariables_GetValues nlp))"
  by (simp add: inverse_kinematics_setup_def inverse_kinematics_def SetOption_def Let_def)

text \<open>
  Claim C9 as stated says that a caller of the entry point is able to override the
  settings. No call does: whatever the arguments (and whatever options the solver object
  starts with), none of the three settings differs from the constant in the code.
\<close>

theorem solver_settings_override_counterexample:
  "\<not> (\<exists>ipopt (mdl :: real RobotModel) source target desired q0.
        options (fst (inverse_kinematics_setup ipopt mdl source target desired q0)) ''max_iter''
          \<noteq> Some (IntegerValue 250)
        \<or> options (fst (inverse_kinematics_setup ipopt mdl source target desired q0))
             ''acceptable_tol'' \<noteq> Some (NumericValue (1 / 1000000000))
        \<or> options (fst (inverse_kinematics_setup ipopt mdl source target desired q0))
             ''jacobian_approximation'' \<noteq> Some (StringValue ''exact''))"
  by (simp add: inverse_kinematics_setup_def SetOption_def Let_def)

end
